theory Spec2Isabelle
  imports
    Complex_Main
    "HOL-Library.Char_ord"
    "HOL-Library.List_Lexorder"
    "HOL-Library.Product_Lexorder"
begin

section \<open>Smart Grid Power Consumption Analyzer (main.py)\<close>

text \<open>
  The development follows the pipeline of main.py after the sample data has been
  written: \<open>load_and_merge_data\<close>, \<open>analyze_data\<close>, \<open>visualize_results\<close>.

  Modelling conventions.
  \<^item> A pandas DataFrame is the list of its rows; a row is a record with one field per
    column. A column that has not been added to the frame yet (\<open>hour\<close>, \<open>violation\<close>)
    is \<open>None\<close> in every row, and reading it raises \<open>KeyError\<close>.
  \<^item> A consumption value is \<open>rat option\<close>: \<open>None\<close> is the missing value (NaN).
    pandas reductions skip missing values, and a comparison with a missing value is
    False.
  \<^item> Numbers are exact rationals. Comparisons, the choice of branches and the
    two-decimal rounding are those of the source; the binary rounding error of
    float64 arithmetic is not represented. \<open>round(x, 2)\<close> is
    \<open>rint (x * 100) / 100\<close> with ties going to the even integer.
  \<^item> The file system is seen through the three library calls of the loader:
    \<open>os.listdir\<close>, \<open>json.load\<close> (a dict, or \<open>JSONDecodeError\<close>) and
    \<open>pd.read_csv\<close> behind \<open>os.path.exists\<close> (no file, \<open>EmptyDataError\<close>, or a
    frame with the three columns of a reading file). A metadata file that parses is
    a JSON object; each of its fields is absent (\<open>None\<close>) or has the type the
    generator writes. A reading file with a header and no rows is a frame without
    rows, not an \<open>EmptyDataError\<close>.
  \<^item> \<open>df["consumption_kwh"].fillna(mean_value, inplace=True)\<close> is taken to update
    the column of \<open>df\<close>, as it does when pandas does not copy on write.
  \<^item> An exception is a value \<open>Inl e\<close> of a sum type; the warnings the loader prints
    are collected in a list next to its result.
  \<^item> \<open>pd.to_datetime(...).dt.hour\<close> is modelled on the timestamp format of the data
    files, \<open>YYYY-MM-DD HH:MM\<close>, with month, day, hour and minute in range (the
    length of the month is not checked); any other text is a parse error.
  The files written by \<open>analyze_data\<close> and the images written by
  \<open>visualize_results\<close> are outputs only and are represented by the values they
  are made from.
\<close>

subsection \<open>Data\<close>

datatype error = ValueError string | KeyError string | IndexError string

datatype warning = Skipping_corrupted_JSON string | Missing_CSV string | Empty_CSV_skipped string

record district_meta =
  district_id :: "string option"
  threshold :: "rat option"

record city_meta =
  city :: "string option"
  date :: "string option"
  districts :: "district_meta list option"
  critical_hours :: "string list option"

record reading =
  household_id :: string
  timestamp :: string
  consumption_kwh :: "rat option"

record row = reading +
  city :: string
  district_id :: string
  threshold :: rat
  critical_hours :: "string list"
  hour :: "nat option"
  violation :: "bool option"

record summary =
  city :: string
  district_id :: string
  date :: string
  avg_consumption :: "rat option"
  min_consumption :: "rat option"
  max_consumption :: "rat option"
  peak_hour :: string
  violations :: nat
  violation_ratio :: rat
  risk_score :: rat
  risk_level :: string

datatype json_file = JSONDecodeError | Dict city_meta

datatype csv_file = EmptyDataError | DataFrame "reading list"

record filesystem =
  listdir :: "string \<Rightarrow> string list"
  json_load :: "string \<Rightarrow> json_file"
  read_csv :: "string \<Rightarrow> csv_file option"

subsection \<open>pandas and Python primitives\<close>

text \<open>\<open>d.get(key, default)\<close> on a key that may be absent.\<close>

definition get_default :: "'a option \<Rightarrow> 'a \<Rightarrow> 'a" where
  "get_default v dflt = (case v of None \<Rightarrow> dflt | Some x \<Rightarrow> x)"

text \<open>The present values of a column, in order.\<close>

definition dropna :: "rat option list \<Rightarrow> rat list" where
  "dropna xs = concat (map (\<lambda>x. case x of None \<Rightarrow> [] | Some v \<Rightarrow> [v]) xs)"

text \<open>\<open>Series.sum()\<close>: missing values are skipped, the empty sum is 0.\<close>

definition sum_skipna :: "rat option list \<Rightarrow> rat" where
  "sum_skipna xs = sum_list (dropna xs)"

text \<open>\<open>Series.mean()\<close>: the mean of the present values, missing when there is none.\<close>

definition mean :: "rat option list \<Rightarrow> rat option" where
  "mean xs = (if dropna xs = [] then None
              else Some (sum_list (dropna xs) / of_nat (length (dropna xs))))"

fun min_list_rat :: "rat \<Rightarrow> rat list \<Rightarrow> rat" where
  "min_list_rat m [] = m"
| "min_list_rat m (x # xs) = min_list_rat (min m x) xs"

fun max_list_rat :: "rat \<Rightarrow> rat list \<Rightarrow> rat" where
  "max_list_rat m [] = m"
| "max_list_rat m (x # xs) = max_list_rat (max m x) xs"

definition min_skipna :: "rat option list \<Rightarrow> rat option" where
  "min_skipna xs = (case dropna xs of [] \<Rightarrow> None | v # vs \<Rightarrow> Some (min_list_rat v vs))"

definition max_skipna :: "rat option list \<Rightarrow> rat option" where
  "max_skipna xs = (case dropna xs of [] \<Rightarrow> None | v # vs \<Rightarrow> Some (max_list_rat v vs))"

text \<open>\<open>Series.fillna(value)\<close>: filling with a missing value changes nothing.\<close>

definition fillna :: "rat option \<Rightarrow> reading list \<Rightarrow> reading list" where
  "fillna v df =
     map (\<lambda>r. case consumption_kwh r of None \<Rightarrow> r\<lparr>consumption_kwh := v\<rparr> | Some _ \<Rightarrow> r) df"

text \<open>\<open>Series.isna().sum()\<close> of the consumption column.\<close>

definition isna_sum :: "reading list \<Rightarrow> nat" where
  "isna_sum df = length (filter (\<lambda>r. consumption_kwh r = None) df)"

text \<open>
  \<open>df.groupby(key)\<close>: one group per distinct key, keys in ascending order, the rows of
  a group in their order in the frame.
\<close>

definition groupby :: "('a \<Rightarrow> 'k::linorder) \<Rightarrow> 'a list \<Rightarrow> ('k \<times> 'a list) list" where
  "groupby key df = map (\<lambda>k. (k, filter (\<lambda>r. key r = k) df)) (sort (remdups (map key df)))"

text \<open>
  \<open>Series.idxmax()\<close>: the index of the first occurrence of the largest value;
  it raises on an empty series (\<open>None\<close>).
\<close>

fun argmax_from :: "'k \<times> rat \<Rightarrow> ('k \<times> rat) list \<Rightarrow> 'k \<times> rat" where
  "argmax_from best [] = best"
| "argmax_from best (kv # rest) = argmax_from (if snd best < snd kv then kv else best) rest"

definition idxmax :: "('k \<times> rat) list \<Rightarrow> 'k option" where
  "idxmax s = (case s of [] \<Rightarrow> None | kv # rest \<Rightarrow> Some (fst (argmax_from kv rest)))"

text \<open>Rounding to the nearest integer, ties to even; \<open>round(x, ndigits)\<close>.\<close>

definition rint :: "rat \<Rightarrow> int" where
  "rint x = (let f = \<lfloor>x\<rfloor>; d = x - of_int f
             in if d < 1 / 2 then f
                else if 1 / 2 < d then f + 1
                else if even f then f else f + 1)"

definition round_py :: "rat \<Rightarrow> nat \<Rightarrow> rat" where
  "round_py x ndigits = of_int (rint (x * 10 ^ ndigits)) / 10 ^ ndigits"

text \<open>Decimal digits: \<open>str(n)\<close> and the format \<open>{n:02d}\<close>.\<close>

definition digit_char :: "nat \<Rightarrow> char" where
  "digit_char d = (if d < 10 then ''0123456789'' ! d else CHR ''?'')"

fun str_nat :: "nat \<Rightarrow> string" where
  "str_nat n = (if n < 10 then [digit_char n] else str_nat (n div 10) @ [digit_char (n mod 10)])"

declare str_nat.simps [simp del]

definition fmt02d :: "nat \<Rightarrow> string" where
  "fmt02d n = (if n < 10 then CHR ''0'' # str_nat n else str_nat n)"

definition is_digit :: "char \<Rightarrow> bool" where
  "is_digit c = (48 \<le> (of_char c :: nat) \<and> (of_char c :: nat) \<le> 57)"

definition digit_val :: "char \<Rightarrow> nat" where
  "digit_val c = of_char c - 48"

text \<open>
  The hour of a timestamp written as \<open>YYYY-MM-DD HH:MM\<close>
  (\<open>pd.to_datetime(ts).hour\<close>); \<open>None\<close> when the text does not parse.
\<close>

definition dt_hour :: "string \<Rightarrow> nat option" where
  "dt_hour ts =
     (case ts of
        [y1, y2, y3, y4, s1, m1, m2, s2, d1, d2, s3, h1, h2, s4, n1, n2] \<Rightarrow>
          if list_all is_digit [y1, y2, y3, y4, m1, m2, d1, d2, h1, h2, n1, n2]
             \<and> s1 = CHR ''-'' \<and> s2 = CHR ''-'' \<and> s3 = CHR '' '' \<and> s4 = CHR '':''
             \<and> 1 \<le> 10 * digit_val m1 + digit_val m2 \<and> 10 * digit_val m1 + digit_val m2 \<le> 12
             \<and> 1 \<le> 10 * digit_val d1 + digit_val d2 \<and> 10 * digit_val d1 + digit_val d2 \<le> 31
             \<and> 10 * digit_val h1 + digit_val h2 < 24
             \<and> 10 * digit_val n1 + digit_val n2 < 60
          then Some (10 * digit_val h1 + digit_val h2)
          else None
      | _ \<Rightarrow> None)"

text \<open>Reading a whole column: \<open>KeyError\<close> (\<open>None\<close>) when a row does not have it.\<close>

fun column :: "('a \<Rightarrow> 'b option) \<Rightarrow> 'a list \<Rightarrow> 'b list option" where
  "column f [] = Some []"
| "column f (r # rs) =
     (case f r of None \<Rightarrow> None
      | Some v \<Rightarrow> (case column f rs of None \<Rightarrow> None | Some vs \<Rightarrow> Some (v # vs)))"

subsection \<open>Loading and merging: \<open>load_and_merge_data\<close>\<close>

text \<open>
  Imputation of one reading file (the \<open>if df["consumption_kwh"].isna().sum() > 0\<close>
  block): missing values are filled with the mean of the column.
\<close>

definition impute :: "reading list \<Rightarrow> reading list" where
  "impute df = (if 0 < isna_sum df then fillna (mean (map consumption_kwh df)) df else df)"

text \<open>The four metadata columns added to a reading file.\<close>

definition attach_metadata ::
  "string \<Rightarrow> string \<Rightarrow> rat \<Rightarrow> string list \<Rightarrow> reading list \<Rightarrow> row list" where
  "attach_metadata city' district_id' threshold' critical_hours' df =
     map (\<lambda>r. \<lparr>household_id = household_id r, timestamp = timestamp r,
                consumption_kwh = consumption_kwh r,
                row.city = city', row.district_id = district_id', row.threshold = threshold',
                row.critical_hours = critical_hours', hour = None, violation = None\<rparr>) df"

definition csv_path :: "string \<Rightarrow> string \<Rightarrow> string \<Rightarrow> string \<Rightarrow> string" where
  "csv_path csv_dir city' district_id' date' =
     csv_dir @ ''/district_'' @ city' @ ''_'' @ district_id' @ ''_'' @ date' @ ''.csv''"

text \<open>
  The body of the inner loop, for one district of a metadata file. The state is
  \<open>all_data\<close> together with the warnings printed so far.
\<close>

definition load_district ::
  "filesystem \<Rightarrow> string \<Rightarrow> string \<Rightarrow> string \<Rightarrow> string list \<Rightarrow> district_meta
     \<Rightarrow> row list list \<times> warning list \<Rightarrow> row list list \<times> warning list" where
  "load_district fs csv_dir city' date' critical_hours' district st =
     (case st of (all_data, out) \<Rightarrow>
      let district_id = get_default (district_meta.district_id district) ''Unknown'';
          threshold = get_default (district_meta.threshold district) 1.5;
          csv_filename = csv_path csv_dir city' district_id date'
      in (case read_csv fs csv_filename of
            None \<Rightarrow> (all_data, out @ [Missing_CSV csv_filename])
          | Some EmptyDataError \<Rightarrow> (all_data, out @ [Empty_CSV_skipped csv_filename])
          | Some (DataFrame df) \<Rightarrow>
              (all_data @ [attach_metadata city' district_id threshold critical_hours' (impute df)],
               out)))"

fun load_districts ::
  "filesystem \<Rightarrow> string \<Rightarrow> string \<Rightarrow> string \<Rightarrow> string list \<Rightarrow> district_meta list
     \<Rightarrow> row list list \<times> warning list \<Rightarrow> row list list \<times> warning list" where
  "load_districts fs csv_dir city' date' critical_hours' [] st = st"
| "load_districts fs csv_dir city' date' critical_hours' (district # rest) st =
     load_districts fs csv_dir city' date' critical_hours' rest
       (load_district fs csv_dir city' date' critical_hours' district st)"

text \<open>The body of the outer loop, for one entry of the metadata directory.\<close>

definition load_json_file ::
  "filesystem \<Rightarrow> string \<Rightarrow> string \<Rightarrow> string
     \<Rightarrow> row list list \<times> warning list \<Rightarrow> row list list \<times> warning list" where
  "load_json_file fs csv_dir json_dir json_file st =
     (case json_load fs (json_dir @ ''/'' @ json_file) of
        JSONDecodeError \<Rightarrow> (fst st, snd st @ [Skipping_corrupted_JSON json_file])
      | Dict meta \<Rightarrow>
          let city = get_default (city_meta.city meta) ''UnknownCity'';
              date = get_default (city_meta.date meta) ''UnknownDate'';
              critical_hours = get_default (city_meta.critical_hours meta) []
          in load_districts fs csv_dir city date critical_hours
               (get_default (city_meta.districts meta) []) st)"

fun load_json_files ::
  "filesystem \<Rightarrow> string \<Rightarrow> string \<Rightarrow> string list
     \<Rightarrow> row list list \<times> warning list \<Rightarrow> row list list \<times> warning list" where
  "load_json_files fs csv_dir json_dir [] st = st"
| "load_json_files fs csv_dir json_dir (json_file # rest) st =
     load_json_files fs csv_dir json_dir rest (load_json_file fs csv_dir json_dir json_file st)"

definition load_and_merge_data ::
  "filesystem \<Rightarrow> string \<Rightarrow> (error + row list) \<times> warning list" where
  "load_and_merge_data fs data_dir =
     (let csv_dir = data_dir @ ''/csv'';
          json_dir = data_dir @ ''/json'';
          st = load_json_files fs csv_dir json_dir (listdir fs json_dir) ([], [])
      in (if fst st = [] then Inl (ValueError ''No data found. Please run data generation first.'')
          else Inr (concat (fst st)),
          snd st))"

subsection \<open>Analysis: \<open>analyze_data\<close>\<close>

text \<open>
  The two derived columns \<open>hour\<close> and \<open>violation\<close>, written into the frame that was
  passed in; the updated frame is returned next to the results.
\<close>

definition add_hour_violation :: "row list \<Rightarrow> error + row list" where
  "add_hour_violation df =
     (if list_all (\<lambda>r. dt_hour (timestamp r) \<noteq> None) df
      then Inr (map (\<lambda>r. r\<lparr>hour := dt_hour (timestamp r),
                            violation := Some (case consumption_kwh r of
                                                 None \<Rightarrow> False
                                               | Some c \<Rightarrow> row.threshold r < c)\<rparr>) df)
      else Inl (ValueError ''time data does not match format''))"

definition group_key :: "row \<Rightarrow> string \<times> string \<times> string" where
  "group_key r = (row.city r, row.district_id r, take 10 (timestamp r))"

text \<open>
  \<open>group.groupby("hour")["consumption_kwh"].sum()\<close>: for every hour that occurs in
  the group, in ascending order, the sum of the consumption of its rows.
\<close>

definition hour_total :: "row list \<Rightarrow> nat \<Rightarrow> rat" where
  "hour_total grp h = sum_skipna (map consumption_kwh (filter (\<lambda>r. hour r = Some h) grp))"

definition hourly_sum :: "row list \<Rightarrow> error + (nat \<times> rat) list" where
  "hourly_sum grp =
     (case column hour grp of
        None \<Rightarrow> Inl (KeyError ''hour'')
      | Some hours \<Rightarrow> Inr (map (\<lambda>h. (h, hour_total grp h)) (sort (remdups hours))))"

definition compute_risk_score :: "rat \<Rightarrow> nat \<Rightarrow> rat" where
  "compute_risk_score violation_ratio' peak_hour_risk =
     (if 0.25 \<le> violation_ratio' \<or> peak_hour_risk = 1
      then round_py ((0.6 * violation_ratio') + (0.4 * of_nat peak_hour_risk)) 2
      else 0)"

definition assign_risk_level :: "rat \<Rightarrow> string" where
  "assign_risk_level risk_score' =
     (if risk_score' = 0 then ''NO RISK''
      else if risk_score' \<le> 0.30 then ''LOW''
      else if risk_score' \<le> 0.60 then ''MEDIUM''
      else ''HIGH'')"

text \<open>The body of the loop over the (city, district, date) groups.\<close>

definition analyze_group :: "string \<times> string \<times> string \<Rightarrow> row list \<Rightarrow> error + summary" where
  "analyze_group k grp =
     (case k of (city', district_id', date') \<Rightarrow>
       (let avg_cons = mean (map consumption_kwh grp);
            min_cons = min_skipna (map consumption_kwh grp);
            max_cons = max_skipna (map consumption_kwh grp)
        in (case hourly_sum grp of
              Inl e \<Rightarrow> Inl e
            | Inr hsums \<Rightarrow>
               (case idxmax hsums of
                  None \<Rightarrow> Inl (ValueError ''attempt to get argmax of an empty sequence'')
                | Some peak_hour' \<Rightarrow>
                   (case grp of
                      [] \<Rightarrow> Inl (IndexError ''single positional indexer is out-of-bounds'')
                    | first # _ \<Rightarrow>
                       (let peak_hour_str = fmt02d peak_hour' @ '':00'';
                            critical_hours = row.critical_hours first;
                            peak_hour_risk = (if peak_hour_str \<in> set critical_hours then 1 else 0)
                        in (case column violation grp of
                              None \<Rightarrow> Inl (KeyError ''violation'')
                            | Some vs \<Rightarrow>
                               (let violations = length (filter (\<lambda>v. v) vs);
                                    total = length grp;
                                    violation_ratio = of_nat violations / of_nat total;
                                    risk_score = compute_risk_score violation_ratio peak_hour_risk;
                                    risk_level = assign_risk_level risk_score
                                in Inr \<lparr>city = city', district_id = district_id', date = date',
                                        avg_consumption = avg_cons, min_consumption = min_cons,
                                        max_consumption = max_cons, peak_hour = peak_hour_str,
                                        violations = violations, violation_ratio = violation_ratio,
                                        risk_score = risk_score, risk_level = risk_level\<rparr>))))))))"

fun analyze_groups ::
  "((string \<times> string \<times> string) \<times> row list) list \<Rightarrow> summary list \<Rightarrow> error + summary list" where
  "analyze_groups [] results = Inr results"
| "analyze_groups ((k, grp) # rest) results =
     (case analyze_group k grp of
        Inl e \<Rightarrow> Inl e
      | Inr s \<Rightarrow> analyze_groups rest (results @ [s]))"

definition analyze_data :: "row list \<Rightarrow> error + row list \<times> summary list" where
  "analyze_data df =
     (case add_hour_violation df of
        Inl e \<Rightarrow> Inl e
      | Inr df' \<Rightarrow>
          (case analyze_groups (groupby group_key df') [] of
             Inl e \<Rightarrow> Inl e
           | Inr results \<Rightarrow> Inr (df', results)))"

subsection \<open>Charts: \<open>visualize_results\<close>\<close>

datatype chart =
  Risk_levels string "nat list"
| Trend string string string "(nat \<times> rat) list" nat

definition risk_level_chart :: "string \<times> summary list \<Rightarrow> chart" where
  "risk_level_chart cg =
     (case cg of (city', grp) \<Rightarrow>
        Risk_levels city'
          (map (\<lambda>level. length (filter (\<lambda>s. risk_level s = level) grp))
               [''NO RISK'', ''LOW'', ''MEDIUM'', ''HIGH'']))"

definition trend_chart :: "string \<times> string \<times> string \<Rightarrow> row list \<Rightarrow> error + chart" where
  "trend_chart k grp =
     (case k of (city', district_id', date') \<Rightarrow>
       (case hourly_sum grp of
          Inl e \<Rightarrow> Inl e
        | Inr hsums \<Rightarrow>
            (case idxmax hsums of
               None \<Rightarrow> Inl (ValueError ''attempt to get argmax of an empty sequence'')
             | Some peak_hour' \<Rightarrow> Inr (Trend city' district_id' date' hsums peak_hour'))))"

fun trend_charts ::
  "((string \<times> string \<times> string) \<times> row list) list \<Rightarrow> chart list \<Rightarrow> error + chart list" where
  "trend_charts [] charts = Inr charts"
| "trend_charts ((k, grp) # rest) charts =
     (case trend_chart k grp of
        Inl e \<Rightarrow> Inl e
      | Inr c \<Rightarrow> trend_charts rest (charts @ [c]))"

definition visualize_results :: "summary list \<Rightarrow> row list \<Rightarrow> error + chart list" where
  "visualize_results results_df df =
     (let bars = map risk_level_chart (groupby summary.city results_df)
      in (case trend_charts (groupby group_key df) [] of
            Inl e \<Rightarrow> Inl e
          | Inr lines \<Rightarrow> Inr (bars @ lines)))"

subsection \<open>The main driver\<close>

text \<open>
  Steps 2 to 4 of the driver, on the files that step 1 (the random generator) or any
  other source has left in \<open>data/\<close>. The frame given to \<open>visualize_results\<close> is the
  one \<open>analyze_data\<close> has updated.
\<close>

definition main_driver :: "filesystem \<Rightarrow> error + summary list \<times> chart list" where
  "main_driver fs =
     (case fst (load_and_merge_data fs ''data'') of
        Inl e \<Rightarrow> Inl e
      | Inr data \<Rightarrow>
          (case analyze_data data of
             Inl e \<Rightarrow> Inl e
           | Inr (data', summary) \<Rightarrow>
               (case visualize_results summary data' of
                  Inl e \<Rightarrow> Inl e
                | Inr charts \<Rightarrow> Inr (summary, charts))))"

subsection \<open>Example inputs\<close>

text \<open>
  A row of the unified table as the loader returns it: district 101 of City1 with
  threshold 1.5 and the critical hours the generator writes.
\<close>

definition example_row :: "string \<Rightarrow> rat option \<Rightarrow> row" where
  "example_row ts c =
     \<lparr>household_id = ''H001'', timestamp = ts, consumption_kwh = c,
      row.city = ''City1'', row.district_id = ''101'', row.threshold = 1.5,
      row.critical_hours = [''18:00'', ''19:00'', ''20:00'', ''21:00''],
      hour = None, violation = None\<rparr>"

text \<open>One violation in three rows, and the peak hour 18 is critical.\<close>

definition medium_day :: "row list" where
  "medium_day = [example_row ''2025-09-10 18:00'' (Some 2.0),
                 example_row ''2025-09-10 19:00'' (Some 1.0),
                 example_row ''2025-09-10 20:00'' (Some 1.0)]"



text \<open>A reading equal to the threshold, one above it and a missing one.\<close>

definition threshold_day :: "row list" where
  "threshold_day = [example_row ''2025-09-10 12:00'' (Some 1.5),
                    example_row ''2025-09-10 13:00'' (Some 1.51),
                    example_row ''2025-09-10 14:00'' None]"

text \<open>
  A data directory with two metadata entries. The first declares three districts: the
  file of district 101 has the readings 1.0, missing, 3.0; the file of district 102
  does not exist; the file of district 103 is empty. The second entry does not parse.
\<close>

definition example_reading :: "string \<Rightarrow> rat option \<Rightarrow> reading" where
  "example_reading ts c = \<lparr>household_id = ''H001'', timestamp = ts, consumption_kwh = c\<rparr>"

definition example_meta :: city_meta where
  "example_meta =
     \<lparr>city_meta.city = Some ''City1'', city_meta.date = Some ''2025-09-10'',
      city_meta.districts =
        Some [\<lparr>district_meta.district_id = Some ''101'', district_meta.threshold = Some 1.2\<rparr>,
              \<lparr>district_meta.district_id = Some ''102'', district_meta.threshold = Some 1.7\<rparr>,
              \<lparr>district_meta.district_id = Some ''103'', district_meta.threshold = Some 1.9\<rparr>],
      city_meta.critical_hours = Some [''18:00'', ''19:00'', ''20:00'', ''21:00'']\<rparr>"

definition example_fs :: filesystem where
  "example_fs =
     \<lparr>listdir = (\<lambda>d. if d = ''data/json'' then [''city_City1_2025-09-10.json'', ''broken.json'']
                      else []),
      json_load = (\<lambda>p. if p = ''data/json/city_City1_2025-09-10.json'' then Dict example_meta
                        else JSONDecodeError),
      read_csv = (\<lambda>p. if p = ''data/csv/district_City1_101_2025-09-10.csv''
                       then Some (DataFrame [example_reading ''2025-09-10 00:00'' (Some 1.0),
                                             example_reading ''2025-09-10 01:00'' None,
                                             example_reading ''2025-09-10 02:00'' (Some 3.0)])
                       else if p = ''data/csv/district_City1_103_2025-09-10.csv''
                       then Some EmptyDataError
                       else None)\<rparr>"


text \<open>
  A data directory whose metadata entry is a JSON object without \<open>city\<close>, \<open>date\<close>
  and \<open>critical_hours\<close>, with one district that has neither \<open>district_id\<close> nor
  \<open>threshold\<close>.
\<close>

definition bare_meta :: city_meta where
  "bare_meta =
     \<lparr>city_meta.city = None, city_meta.date = None,
      city_meta.districts =
        Some [\<lparr>district_meta.district_id = None, district_meta.threshold = None\<rparr>],
      city_meta.critical_hours = None\<rparr>"

definition bare_fs :: filesystem where
  "bare_fs =
     \<lparr>listdir = (\<lambda>d. if d = ''data/json'' then [''bare.json''] else []),
      json_load = (\<lambda>p. Dict bare_meta),
      read_csv = (\<lambda>p. if p = ''data/csv/district_UnknownCity_Unknown_UnknownDate.csv''
                       then Some (DataFrame [example_reading ''2025-09-10 00:00'' (Some 1.0)])
                       else None)\<rparr>"


subsection \<open>When a table merges\<close>

text \<open>
  The reading file the loader looks up for a district of a metadata record, and the
  condition of the specification that at least one table is merged: some entry of the
  metadata directory parses and declares a district whose reading file exists and is
  read as a frame.
\<close>

definition district_csv :: "string \<Rightarrow> city_meta \<Rightarrow> district_meta \<Rightarrow> string" where
  "district_csv data_dir meta district =
     csv_path (data_dir @ ''/csv'')
       (case city_meta.city meta of None \<Rightarrow> ''UnknownCity'' | Some c \<Rightarrow> c)
       (case district_meta.district_id district of None \<Rightarrow> ''Unknown'' | Some d \<Rightarrow> d)
       (case city_meta.date meta of None \<Rightarrow> ''UnknownDate'' | Some d \<Rightarrow> d)"

definition declared_districts :: "city_meta \<Rightarrow> district_meta list" where
  "declared_districts meta = (case city_meta.districts meta of None \<Rightarrow> [] | Some ds \<Rightarrow> ds)"


section \<open>Properties\<close>

subsection \<open>Rounding\<close>

lemma rint_bounds: "\<lfloor>x\<rfloor> \<le> rint x \<and> rint x \<le> \<lfloor>x\<rfloor> + 1"
  by (simp add: rint_def Let_def)

lemma rint_mono: "x \<le> y \<Longrightarrow> rint x \<le> rint y"
proof -
  assume le: "x \<le> y"
  have fl: "\<lfloor>x\<rfloor> \<le> \<lfloor>y\<rfloor>" using le by (rule floor_mono)
  show ?thesis
  proof (cases "\<lfloor>x\<rfloor> = \<lfloor>y\<rfloor>")
    case True
    then have "x - of_int \<lfloor>x\<rfloor> \<le> y - of_int \<lfloor>y\<rfloor>" using le by simp
    then show ?thesis using True by (auto simp: rint_def Let_def)
  next
    case False
    then have "\<lfloor>x\<rfloor> + 1 \<le> \<lfloor>y\<rfloor>" using fl by simp
    then show ?thesis using rint_bounds[of x] rint_bounds[of y] by linarith
  qed
qed

lemma rint_of_int: "rint (of_int k) = k"
  by (simp add: rint_def)

lemma round_py_mono: "x \<le> y \<Longrightarrow> round_py x n \<le> round_py y n"
proof -
  assume "x \<le> y"
  then have "x * 10 ^ n \<le> y * 10 ^ n" by (simp add: mult_right_mono)
  then have "rint (x * 10 ^ n) \<le> rint (y * 10 ^ n)" by (rule rint_mono)
  then show ?thesis by (simp add: round_py_def divide_right_mono)
qed

lemma round_py_nonneg: "0 \<le> x \<Longrightarrow> 0 \<le> round_py x n"
proof -
  assume "0 \<le> x"
  then have "round_py 0 n \<le> round_py x n" by (rule round_py_mono)
  moreover have "round_py 0 n = 0" using rint_of_int[of 0] by (simp add: round_py_def)
  ultimately show ?thesis by simp
qed

subsection \<open>The risk score is monotone in the violation ratio\<close>

text \<open>
  Claim C8. With the peak-hour risk held fixed, a larger violation ratio never gives a
  smaller risk score, where the score is the whole computation of the source: the
  gate \<open>violation_ratio >= 0.25 or peak_hour_risk == 1\<close>, the weighted sum and the
  rounding to two decimals. The statement holds for all ratios \<open>r1 \<le> r2\<close> and every
  value of the peak-hour risk, so in particular for ratios in \<open>[0, 1]\<close> and a risk
  of 0 or 1.
\<close>

theorem risk_score_monotone:
  "r1 \<le> r2 \<Longrightarrow> compute_risk_score r1 p \<le> compute_risk_score r2 p"
proof -
  assume le: "r1 \<le> r2"
  have mono: "round_py (0.6 * r1 + 0.4 * of_nat p) 2 \<le> round_py (0.6 * r2 + 0.4 * of_nat p) 2"
    using le by (intro round_py_mono) simp
  have pos: "0.25 \<le> r2 \<Longrightarrow> 0 \<le> round_py (0.6 * r2 + 0.4 * of_nat p) 2"
    by (intro round_py_nonneg) simp
  show ?thesis
    using le mono pos by (auto simp: compute_risk_score_def)
qed

text \<open>
  The theorem at a ratio below the gate and one above it, with no peak-hour risk: the
  scores are 0 and 0.3.
\<close>

theorem risk_score_monotone_witness:
  "(0.2 :: rat) \<le> 0.5 \<and> compute_risk_score 0.2 0 = 0 \<and> compute_risk_score 0.5 0 = 0.3
     \<and> compute_risk_score 0.2 0 \<le> compute_risk_score 0.5 0"
proof -
  have le: "(0.2 :: rat) \<le> 0.5" by simp
  have a: "compute_risk_score 0.2 0 = 0" by (simp add: compute_risk_score_def)
  have b: "compute_risk_score 0.5 0 = 0.3"
    by (simp add: compute_risk_score_def round_py_def rint_def)
  show ?thesis using le a b risk_score_monotone [OF le, of 0] by simp
qed

subsection \<open>Groups and columns\<close>


lemma groupby_member:
  "(k, g) \<in> set (groupby key df) \<longleftrightarrow> k \<in> key ` set df \<and> g = filter (\<lambda>r. key r = k) df"
  by (auto simp: groupby_def)

lemma groupby_nonempty: "(k, g) \<in> set (groupby key df) \<Longrightarrow> g \<noteq> []"
  by (auto simp: groupby_member filter_empty_conv)

lemma groupby_subset: "(k, g) \<in> set (groupby key df) \<Longrightarrow> set g \<subseteq> set df"
  by (auto simp: groupby_member)

lemma column_Some: "column f rs = Some vs \<longleftrightarrow> map f rs = map Some vs"
proof (induction rs arbitrary: vs)
  case Nil
  show ?case by auto
next
  case (Cons a rs)
  show ?case
  proof (cases vs)
    case Nil
    then show ?thesis by (auto split: option.splits)
  next
    case (Cons v vs')
    then show ?thesis using Cons.IH[of vs'] by (auto split: option.splits)
  qed
qed

subsection \<open>The loop over the groups\<close>

lemma analyze_groups_acc:
  "analyze_groups gs acc = Inr results \<Longrightarrow>
     \<exists>ss. results = acc @ ss \<and> list_all2 (\<lambda>kg s. analyze_group (fst kg) (snd kg) = Inr s) gs ss"
proof (induction gs arbitrary: acc)
  case Nil
  then show ?case by simp
next
  case (Cons kg gs)
  obtain k g where kg: "kg = (k, g)" by (cases kg)
  from Cons.prems kg obtain s where s: "analyze_group k g = Inr s"
    and rest: "analyze_groups gs (acc @ [s]) = Inr results"
    by (auto split: sum.splits)
  from Cons.IH[OF rest] obtain ss where "results = (acc @ [s]) @ ss"
    and "list_all2 (\<lambda>kg s. analyze_group (fst kg) (snd kg) = Inr s) gs ss" by blast
  then show ?case using s kg by (intro exI[of _ "s # ss"]) simp
qed

lemma analyze_data_Inr:
  assumes "analyze_data df = Inr (df', results)"
  shows "add_hour_violation df = Inr df'"
    and "list_all2 (\<lambda>kg s. analyze_group (fst kg) (snd kg) = Inr s) (groupby group_key df') results"
proof -
  from assms show a: "add_hour_violation df = Inr df'"
    by (auto simp: analyze_data_def split: sum.splits)
  from assms a have "analyze_groups (groupby group_key df') [] = Inr results"
    by (auto simp: analyze_data_def split: sum.splits)
  from analyze_groups_acc[OF this]
  show "list_all2 (\<lambda>kg s. analyze_group (fst kg) (snd kg) = Inr s) (groupby group_key df') results"
    by simp
qed


lemma group_of_result:
  assumes "analyze_data df = Inr (df', results)" and "s \<in> set results"
  shows "\<exists>k g. (k, g) \<in> set (groupby group_key df') \<and> analyze_group k g = Inr s"
proof -
  let ?gs = "groupby group_key df'"
  from assms(2) obtain i where i: "i < length results" "results ! i = s"
    by (auto simp: in_set_conv_nth)
  from analyze_data_Inr(2)[OF assms(1)] i
  have "i < length ?gs" "analyze_group (fst (?gs ! i)) (snd (?gs ! i)) = Inr s"
    by (auto simp: list_all2_conv_all_nth)
  then show ?thesis
    by (intro exI[of _ "fst (?gs ! i)"] exI[of _ "snd (?gs ! i)"]) simp
qed

lemma analyze_group_Inr:
  "analyze_group k g = Inr s \<Longrightarrow>
     \<exists>hs p first rest vs.
        hourly_sum g = Inr hs \<and> idxmax hs = Some p \<and> g = first # rest
      \<and> column violation g = Some vs
      \<and> summary.city s = fst k \<and> summary.district_id s = fst (snd k) \<and> date s = snd (snd k)
      \<and> peak_hour s = fmt02d p @ '':00''
      \<and> violations s = length (filter (\<lambda>v. v) vs)
      \<and> violation_ratio s = of_nat (violations s) / of_nat (length g)
      \<and> risk_score s = compute_risk_score (violation_ratio s)
                          (if peak_hour s \<in> set (row.critical_hours first) then 1 else 0)
      \<and> risk_level s = assign_risk_level (risk_score s)"
  by (auto simp: analyze_group_def Let_def split: prod.splits sum.splits option.splits list.splits)

lemma compute_risk_score_nonneg: "0 \<le> r \<Longrightarrow> 0 \<le> compute_risk_score r p"
  by (auto simp: compute_risk_score_def intro!: round_py_nonneg)

subsection \<open>Risk level from risk score\<close>

text \<open>
  Claim C2. In every summary that \<open>analyze_data\<close> returns, the risk level is a
  function of the risk score alone, namely the threshold mapping of the source: a score
  of 0 gives NO RISK, a score in \<open>(0, 0.30]\<close> gives LOW, a score in
  \<open>(0.30, 0.60]\<close> gives MEDIUM and a score above 0.60 gives HIGH. The score is
  never negative, so the four cases cover every summary; a score of exactly 0.60 gives
  MEDIUM, and the score is 0 exactly when the level is NO RISK.
\<close>

theorem risk_level_thresholds:
  assumes "analyze_data df = Inr (df', results)" and "s \<in> set results"
  shows "risk_level s = assign_risk_level (risk_score s)
       \<and> 0 \<le> risk_score s
       \<and> (risk_score s = 0 \<longrightarrow> risk_level s = ''NO RISK'')
       \<and> (0 < risk_score s \<and> risk_score s \<le> 0.30 \<longrightarrow> risk_level s = ''LOW'')
       \<and> (0.30 < risk_score s \<and> risk_score s \<le> 0.60 \<longrightarrow> risk_level s = ''MEDIUM'')
       \<and> (0.60 < risk_score s \<longrightarrow> risk_level s = ''HIGH'')
       \<and> (risk_score s = 0.60 \<longrightarrow> risk_level s = ''MEDIUM'')
       \<and> (risk_score s = 0 \<longleftrightarrow> risk_level s = ''NO RISK'')"
proof -
  from group_of_result[OF assms] obtain k g where run: "analyze_group k g = Inr s" by blast
  from analyze_group_Inr[OF run] obtain p where
    level: "risk_level s = assign_risk_level (risk_score s)"
    and score: "risk_score s = compute_risk_score (violation_ratio s) p"
    and ratio: "violation_ratio s = of_nat (violations s) / of_nat (length g)"
    by blast
  have "0 \<le> violation_ratio s" unfolding ratio by simp
  then have nonneg: "0 \<le> risk_score s" unfolding score by (rule compute_risk_score_nonneg)
  show ?thesis using level nonneg by (auto simp: assign_risk_level_def)
qed

text \<open>
  The theorem on \<open>medium_day\<close>: the violation ratio is 1/3 and the peak hour is
  critical, the score is \<open>round(0.6 * 1/3 + 0.4, 2) = 0.60\<close>, and the level is MEDIUM.
\<close>

theorem risk_level_thresholds_witness:
  "\<exists>df' s. analyze_data medium_day = Inr (df', [s])
      \<and> violation_ratio s = 1 / 3 \<and> risk_score s = 0.60 \<and> risk_level s = ''MEDIUM''"
proof -
  have "case analyze_data medium_day of
          Inr (df', [s]) \<Rightarrow> violation_ratio s = 1 / 3 \<and> risk_score s = 0.60
        | _ \<Rightarrow> False"
    by code_simp
  then obtain df' s where run: "analyze_data medium_day = Inr (df', [s])"
    and vals: "violation_ratio s = 1 / 3" "risk_score s = 0.60"
    by (auto split: sum.splits prod.splits list.splits)
  have "s \<in> set [s]" by simp
  from risk_level_thresholds[OF run this]
  have "risk_score s = 0.60 \<longrightarrow> risk_level s = ''MEDIUM''" by blast
  with vals have "risk_level s = ''MEDIUM''" by blast
  with run vals show ?thesis by blast
qed

subsection \<open>The risk score\<close>



subsection \<open>The derived columns\<close>

lemma add_hour_violation_Inr:
  assumes "add_hour_violation df = Inr df'"
  shows "df' = map (\<lambda>r. r\<lparr>hour := dt_hour (timestamp r),
                          violation := Some (case consumption_kwh r of
                                               None \<Rightarrow> False
                                             | Some c \<Rightarrow> row.threshold r < c)\<rparr>) df"
    and "\<forall>r \<in> set df. dt_hour (timestamp r) \<noteq> None"
  using assms by (auto simp: add_hour_violation_def list_all_iff split: if_splits)

lemma count_violations:
  "map violation g = map Some vs \<Longrightarrow>
     length (filter (\<lambda>v. v) vs) = length (filter (\<lambda>r. violation r = Some True) g)"
proof (induction g arbitrary: vs)
  case Nil
  then show ?case by simp
next
  case (Cons r g)
  then obtain v vs' where vs: "vs = v # vs'" by (cases vs) auto
  with Cons.prems have "violation r = Some v" "map violation g = map Some vs'" by auto
  with Cons.IH[of vs'] vs show ?case by simp
qed

text \<open>
  Claim C7. In the analysed table, row by row: consumption and threshold are those of
  the input row, and \<open>violation\<close> is true exactly when the consumption is present
  and strictly greater than the threshold of the row; a reading equal to the threshold
  is not a violation. The \<open>violations\<close> of a summary count the rows of its group
  whose \<open>violation\<close> is true.
\<close>

theorem violation_iff_above_threshold:
  assumes "analyze_data df = Inr (df', results)"
  shows "length df' = length df
     \<and> (\<forall>i<length df.
           consumption_kwh (df' ! i) = consumption_kwh (df ! i)
         \<and> row.threshold (df' ! i) = row.threshold (df ! i)
         \<and> (violation (df' ! i) = Some True
              \<longleftrightarrow> (\<exists>c. consumption_kwh (df ! i) = Some c \<and> row.threshold (df ! i) < c))
         \<and> (violation (df' ! i) = Some False
              \<longleftrightarrow> \<not> (\<exists>c. consumption_kwh (df ! i) = Some c \<and> row.threshold (df ! i) < c))
         \<and> (consumption_kwh (df ! i) = Some (row.threshold (df ! i))
              \<longrightarrow> violation (df' ! i) = Some False))
     \<and> (\<forall>k g s. (k, g) \<in> set (groupby group_key df') \<and> analyze_group k g = Inr s
           \<longrightarrow> violations s = length (filter (\<lambda>r. violation r = Some True) g))"
proof -
  note cols = add_hour_violation_Inr(1)[OF analyze_data_Inr(1)[OF assms]]
  have len: "length df' = length df" unfolding cols by simp
  have rows: "\<forall>i<length df.
           consumption_kwh (df' ! i) = consumption_kwh (df ! i)
         \<and> row.threshold (df' ! i) = row.threshold (df ! i)
         \<and> (violation (df' ! i) = Some True
              \<longleftrightarrow> (\<exists>c. consumption_kwh (df ! i) = Some c \<and> row.threshold (df ! i) < c))
         \<and> (violation (df' ! i) = Some False
              \<longleftrightarrow> \<not> (\<exists>c. consumption_kwh (df ! i) = Some c \<and> row.threshold (df ! i) < c))
         \<and> (consumption_kwh (df ! i) = Some (row.threshold (df ! i))
              \<longrightarrow> violation (df' ! i) = Some False)"
    unfolding cols by (auto split: option.splits)
  have counts: "\<forall>k g s. (k, g) \<in> set (groupby group_key df') \<and> analyze_group k g = Inr s
           \<longrightarrow> violations s = length (filter (\<lambda>r. violation r = Some True) g)"
  proof (intro allI impI, elim conjE)
    fix k g s
    assume "analyze_group k g = Inr s"
    from analyze_group_Inr[OF this] obtain vs where "column violation g = Some vs"
      and "violations s = length (filter (\<lambda>v. v) vs)" by blast
    then show "violations s = length (filter (\<lambda>r. violation r = Some True) g)"
      by (simp add: column_Some count_violations)
  qed
  from len rows counts show ?thesis by blast
qed

text \<open>
  The theorem on \<open>threshold_day\<close>, whose threshold is 1.5: the reading 1.5 is not a
  violation, the reading 1.51 is one, and the missing reading is not.
\<close>

theorem violation_iff_above_threshold_witness:
  "\<exists>df' results. analyze_data threshold_day = Inr (df', results)
      \<and> violation (df' ! 0) = Some False \<and> violation (df' ! 1) = Some True
      \<and> violation (df' ! 2) = Some False"
proof -
  have "case analyze_data threshold_day of Inr (df', results) \<Rightarrow> True | _ \<Rightarrow> False"
    by code_simp
  then obtain df' results where run: "analyze_data threshold_day = Inr (df', results)"
    by (auto split: sum.splits)
  note th = violation_iff_above_threshold[OF run]
  have in_range: "0 < length threshold_day" "1 < length threshold_day" "2 < length threshold_day"
    by (simp_all add: threshold_day_def)
  have at_threshold: "consumption_kwh (threshold_day ! 0) = Some (row.threshold (threshold_day ! 0))"
    by (simp add: threshold_day_def example_row_def)
  have above: "\<exists>c. consumption_kwh (threshold_day ! 1) = Some c
                  \<and> row.threshold (threshold_day ! 1) < c"
    by (intro exI[of _ "1.51"]) (simp add: threshold_day_def example_row_def)
  have missing: "\<not> (\<exists>c. consumption_kwh (threshold_day ! 2) = Some c
                      \<and> row.threshold (threshold_day ! 2) < c)"
    by (simp add: threshold_day_def example_row_def)
  from th in_range(1) at_threshold have "violation (df' ! 0) = Some False" by blast
  moreover from th in_range(2) above have "violation (df' ! 1) = Some True" by blast
  moreover from th in_range(3) missing have "violation (df' ! 2) = Some False" by blast
  ultimately show ?thesis using run by blast
qed

subsection \<open>The peak hour\<close>








subsection \<open>The loops of the loader\<close>

lemma load_district_app:
  "load_district fs cd c dt ch dm st =
     (fst st @ fst (load_district fs cd c dt ch dm ([], [])),
      snd st @ snd (load_district fs cd c dt ch dm ([], [])))"
  by (cases st) (simp add: load_district_def Let_def split: option.splits csv_file.splits)

lemma load_districts_app:
  "load_districts fs cd c dt ch dms st =
     (fst st @ concat (map (\<lambda>dm. fst (load_district fs cd c dt ch dm ([], []))) dms),
      snd st @ concat (map (\<lambda>dm. snd (load_district fs cd c dt ch dm ([], []))) dms))"
proof (induction dms arbitrary: st)
  case Nil
  show ?case by simp
next
  case (Cons dm dms)
  have step: "load_district fs cd c dt ch dm st =
     (fst st @ fst (load_district fs cd c dt ch dm ([], [])),
      snd st @ snd (load_district fs cd c dt ch dm ([], [])))"
    by (rule load_district_app)
  have "load_districts fs cd c dt ch (dm # dms) st =
          load_districts fs cd c dt ch dms (load_district fs cd c dt ch dm st)"
    by simp
  also have "\<dots> = (fst (load_district fs cd c dt ch dm st)
                      @ concat (map (\<lambda>dm. fst (load_district fs cd c dt ch dm ([], []))) dms),
                    snd (load_district fs cd c dt ch dm st)
                      @ concat (map (\<lambda>dm. snd (load_district fs cd c dt ch dm ([], []))) dms))"
    by (rule Cons.IH)
  also have "\<dots> = (fst st @ concat (map (\<lambda>dm. fst (load_district fs cd c dt ch dm ([], []))) (dm # dms)),
                    snd st @ concat (map (\<lambda>dm. snd (load_district fs cd c dt ch dm ([], []))) (dm # dms)))"
    by (subst (1 2) step) simp
  finally show ?case .
qed

lemma load_json_file_app:
  "load_json_file fs cd jd f st =
     (fst st @ fst (load_json_file fs cd jd f ([], [])),
      snd st @ snd (load_json_file fs cd jd f ([], [])))"
  by (simp add: load_json_file_def Let_def load_districts_app[of _ _ _ _ _ _ st]
        load_districts_app[of _ _ _ _ _ _ "([], [])"] split: json_file.splits)

lemma load_json_files_app:
  "load_json_files fs cd jd fls st =
     (fst st @ concat (map (\<lambda>f. fst (load_json_file fs cd jd f ([], []))) fls),
      snd st @ concat (map (\<lambda>f. snd (load_json_file fs cd jd f ([], []))) fls))"
proof (induction fls arbitrary: st)
  case Nil
  show ?case by simp
next
  case (Cons f fls)
  have step: "load_json_file fs cd jd f st =
     (fst st @ fst (load_json_file fs cd jd f ([], [])),
      snd st @ snd (load_json_file fs cd jd f ([], [])))"
    by (rule load_json_file_app)
  have "load_json_files fs cd jd (f # fls) st =
          load_json_files fs cd jd fls (load_json_file fs cd jd f st)"
    by simp
  also have "\<dots> = (fst (load_json_file fs cd jd f st)
                      @ concat (map (\<lambda>f. fst (load_json_file fs cd jd f ([], []))) fls),
                    snd (load_json_file fs cd jd f st)
                      @ concat (map (\<lambda>f. snd (load_json_file fs cd jd f ([], []))) fls))"
    by (rule Cons.IH)
  also have "\<dots> = (fst st @ concat (map (\<lambda>f. fst (load_json_file fs cd jd f ([], []))) (f # fls)),
                    snd st @ concat (map (\<lambda>f. snd (load_json_file fs cd jd f ([], []))) (f # fls)))"
    by (subst (1 2) step) simp
  finally show ?case .
qed

lemma district_table_iff:
  "t \<in> set (fst (load_district fs cd c dt ch dm ([], [])))
   \<longleftrightarrow> (\<exists>df. read_csv fs (csv_path cd c (get_default (district_meta.district_id dm) ''Unknown'') dt)
                = Some (DataFrame df)
           \<and> t = attach_metadata c (get_default (district_meta.district_id dm) ''Unknown'')
                   (get_default (district_meta.threshold dm) 1.5) ch (impute df))"
  by (auto simp: load_district_def Let_def split: option.splits csv_file.splits)

lemma district_warning_iff:
  "w \<in> set (snd (load_district fs cd c dt ch dm ([], [])))
   \<longleftrightarrow> (let p = csv_path cd c (get_default (district_meta.district_id dm) ''Unknown'') dt
        in (read_csv fs p = None \<and> w = Missing_CSV p)
         \<or> (read_csv fs p = Some EmptyDataError \<and> w = Empty_CSV_skipped p))"
  by (auto simp: load_district_def Let_def split: option.splits csv_file.splits)

lemma json_file_table_iff:
  "t \<in> set (fst (load_json_file fs cd jd f ([], [])))
   \<longleftrightarrow> (\<exists>m. json_load fs (jd @ ''/'' @ f) = Dict m
          \<and> (\<exists>dm \<in> set (get_default (city_meta.districts m) []).
                t \<in> set (fst (load_district fs cd
                     (get_default (city_meta.city m) ''UnknownCity'')
                     (get_default (city_meta.date m) ''UnknownDate'')
                     (get_default (city_meta.critical_hours m) []) dm ([], [])))))"
proof (cases "json_load fs (jd @ ''/'' @ f)")
  case JSONDecodeError
  then show ?thesis by (simp add: load_json_file_def)
next
  case (Dict m)
  then show ?thesis
    by (simp add: load_json_file_def Let_def load_districts_app[of _ _ _ _ _ _ "([], [])"])
qed

lemma json_file_warning_iff:
  "w \<in> set (snd (load_json_file fs cd jd f ([], [])))
   \<longleftrightarrow> (json_load fs (jd @ ''/'' @ f) = JSONDecodeError \<and> w = Skipping_corrupted_JSON f)
     \<or> (\<exists>m. json_load fs (jd @ ''/'' @ f) = Dict m
          \<and> (\<exists>dm \<in> set (get_default (city_meta.districts m) []).
                w \<in> set (snd (load_district fs cd
                     (get_default (city_meta.city m) ''UnknownCity'')
                     (get_default (city_meta.date m) ''UnknownDate'')
                     (get_default (city_meta.critical_hours m) []) dm ([], [])))))"
proof (cases "json_load fs (jd @ ''/'' @ f)")
  case JSONDecodeError
  then show ?thesis by (auto simp: load_json_file_def)
next
  case (Dict m)
  then show ?thesis
    by (simp add: load_json_file_def Let_def load_districts_app[of _ _ _ _ _ _ "([], [])"])
qed

lemma all_tables_iff:
  "t \<in> set (fst (load_json_files fs cd jd fls ([], [])))
   \<longleftrightarrow> (\<exists>f \<in> set fls. t \<in> set (fst (load_json_file fs cd jd f ([], []))))"
  by (subst load_json_files_app) simp


text \<open>The tables that are merged and the warnings that are printed, file by file.\<close>

lemma merged_table_iff:
  "t \<in> set (fst (load_json_files fs (data_dir @ ''/csv'') (data_dir @ ''/json'') fls ([], [])))
   \<longleftrightarrow> (\<exists>f \<in> set fls. \<exists>m. json_load fs (data_dir @ ''/json'' @ ''/'' @ f) = Dict m
          \<and> (\<exists>dm \<in> set (declared_districts m). \<exists>df.
                read_csv fs (district_csv data_dir m dm) = Some (DataFrame df)
              \<and> t = attach_metadata
                      (get_default (city_meta.city m) ''UnknownCity'')
                      (get_default (district_meta.district_id dm) ''Unknown'')
                      (get_default (district_meta.threshold dm) 1.5)
                      (get_default (city_meta.critical_hours m) [])
                      (impute df)))"
  unfolding all_tables_iff json_file_table_iff district_table_iff
  by (simp add: district_csv_def declared_districts_def get_default_def)






lemma load_and_merge_data_unfold:
  "load_and_merge_data fs data_dir =
     (let st = load_json_files fs (data_dir @ ''/csv'') (data_dir @ ''/json'')
                 (listdir fs (data_dir @ ''/json'')) ([], [])
      in (if fst st = [] then Inl (ValueError ''No data found. Please run data generation first.'')
          else Inr (concat (fst st)),
          snd st))"
  by (simp add: load_and_merge_data_def Let_def)

subsection \<open>The fatal error of the loader\<close>



subsection \<open>Imputation\<close>









subsection \<open>Metadata with absent fields\<close>

lemma district_warning_not_json:
  "Skipping_corrupted_JSON g \<notin> set (snd (load_district fs cd c dt ch dm ([], [])))"
  by (simp add: district_warning_iff Let_def)

text \<open>
  Claim C9. An entry of the metadata directory is skipped as a whole only when it does
  not parse: then nothing but the warning is added. When it parses, no such warning is
  printed for it and its districts are processed with \<open>UnknownCity\<close> for an absent
  city, \<open>UnknownDate\<close> for an absent date, the empty list for absent critical hours,
  \<open>Unknown\<close> for an absent district id and 1.5 for an absent threshold: every
  district whose reading file, named with these values, is read adds its table with
  these values to \<open>all_data\<close>.
\<close>

theorem absent_metadata_fields_default:
  "(json_load fs (jd @ ''/'' @ f) = JSONDecodeError \<longrightarrow>
      load_json_file fs cd jd f st = (fst st, snd st @ [Skipping_corrupted_JSON f]))
   \<and> (\<forall>m. json_load fs (jd @ ''/'' @ f) = Dict m \<longrightarrow>
        (let city' = (case city_meta.city m of None \<Rightarrow> ''UnknownCity'' | Some c \<Rightarrow> c);
             date' = (case city_meta.date m of None \<Rightarrow> ''UnknownDate'' | Some d \<Rightarrow> d);
             hours = (case city_meta.critical_hours m of None \<Rightarrow> [] | Some h \<Rightarrow> h);
             declared = (case city_meta.districts m of None \<Rightarrow> [] | Some ds \<Rightarrow> ds)
         in load_json_file fs cd jd f st = load_districts fs cd city' date' hours declared st
          \<and> (\<exists>ws. snd (load_json_file fs cd jd f st) = snd st @ ws
                 \<and> (\<forall>g. Skipping_corrupted_JSON g \<notin> set ws))
          \<and> (\<forall>dm \<in> set declared. \<forall>df.
                read_csv fs (csv_path cd city'
                    (case district_meta.district_id dm of None \<Rightarrow> ''Unknown'' | Some d \<Rightarrow> d)
                    date') = Some (DataFrame df)
                \<longrightarrow> attach_metadata city'
                      (case district_meta.district_id dm of None \<Rightarrow> ''Unknown'' | Some d \<Rightarrow> d)
                      (case district_meta.threshold dm of None \<Rightarrow> 1.5 | Some t \<Rightarrow> t)
                      hours (impute df)
                    \<in> set (fst (load_json_file fs cd jd f st)))))"
proof (intro conjI allI impI)
  assume "json_load fs (jd @ ''/'' @ f) = JSONDecodeError"
  then show "load_json_file fs cd jd f st = (fst st, snd st @ [Skipping_corrupted_JSON f])"
    by (simp add: load_json_file_def)
next
  fix m assume m: "json_load fs (jd @ ''/'' @ f) = Dict m"
  let ?city = "case city_meta.city m of None \<Rightarrow> ''UnknownCity'' | Some c \<Rightarrow> c"
  let ?date = "case city_meta.date m of None \<Rightarrow> ''UnknownDate'' | Some d \<Rightarrow> d"
  let ?hours = "case city_meta.critical_hours m of None \<Rightarrow> [] | Some h \<Rightarrow> h"
  let ?declared = "case city_meta.districts m of None \<Rightarrow> [] | Some ds \<Rightarrow> ds"
  have run: "load_json_file fs cd jd f st = load_districts fs cd ?city ?date ?hours ?declared st"
    using m by (simp add: load_json_file_def Let_def get_default_def)
  have app: "fst (load_json_file fs cd jd f st) = fst st @ fst (load_json_file fs cd jd f ([], []))"
    "snd (load_json_file fs cd jd f st) = snd st @ snd (load_json_file fs cd jd f ([], []))"
    by (subst load_json_file_app, simp)+
  have no_warning: "\<forall>g. Skipping_corrupted_JSON g \<notin> set (snd (load_json_file fs cd jd f ([], [])))"
    using m by (simp add: json_file_warning_iff district_warning_not_json)
  have tables: "\<forall>dm \<in> set ?declared. \<forall>df.
                read_csv fs (csv_path cd ?city
                    (case district_meta.district_id dm of None \<Rightarrow> ''Unknown'' | Some d \<Rightarrow> d)
                    ?date) = Some (DataFrame df)
                \<longrightarrow> attach_metadata ?city
                      (case district_meta.district_id dm of None \<Rightarrow> ''Unknown'' | Some d \<Rightarrow> d)
                      (case district_meta.threshold dm of None \<Rightarrow> 1.5 | Some t \<Rightarrow> t)
                      ?hours (impute df)
                    \<in> set (fst (load_json_file fs cd jd f st))"
  proof (intro ballI allI impI)
    fix dm df
    assume dm: "dm \<in> set ?declared"
      and df: "read_csv fs (csv_path cd ?city
                    (case district_meta.district_id dm of None \<Rightarrow> ''Unknown'' | Some d \<Rightarrow> d)
                    ?date) = Some (DataFrame df)"
    have "attach_metadata ?city
            (case district_meta.district_id dm of None \<Rightarrow> ''Unknown'' | Some d \<Rightarrow> d)
            (case district_meta.threshold dm of None \<Rightarrow> 1.5 | Some t \<Rightarrow> t)
            ?hours (impute df)
          \<in> set (fst (load_json_file fs cd jd f ([], [])))"
      unfolding json_file_table_iff district_table_iff get_default_def
      using m dm df by blast
    then show "attach_metadata ?city
            (case district_meta.district_id dm of None \<Rightarrow> ''Unknown'' | Some d \<Rightarrow> d)
            (case district_meta.threshold dm of None \<Rightarrow> 1.5 | Some t \<Rightarrow> t)
            ?hours (impute df)
          \<in> set (fst (load_json_file fs cd jd f st))"
      unfolding app(1) by simp
  qed
  from run app(2) no_warning tables
  show "let city' = ?city; date' = ?date; hours = ?hours; declared = ?declared
         in load_json_file fs cd jd f st = load_districts fs cd city' date' hours declared st
          \<and> (\<exists>ws. snd (load_json_file fs cd jd f st) = snd st @ ws
                 \<and> (\<forall>g. Skipping_corrupted_JSON g \<notin> set ws))
          \<and> (\<forall>dm \<in> set declared. \<forall>df.
                read_csv fs (csv_path cd city'
                    (case district_meta.district_id dm of None \<Rightarrow> ''Unknown'' | Some d \<Rightarrow> d)
                    date') = Some (DataFrame df)
                \<longrightarrow> attach_metadata city'
                      (case district_meta.district_id dm of None \<Rightarrow> ''Unknown'' | Some d \<Rightarrow> d)
                      (case district_meta.threshold dm of None \<Rightarrow> 1.5 | Some t \<Rightarrow> t)
                      hours (impute df)
                    \<in> set (fst (load_json_file fs cd jd f st)))"
    unfolding Let_def by blast
qed

text \<open>
  The theorem on \<open>bare_fs\<close>, whose metadata entry has none of the fields and one
  district without id and threshold: the file
  \<open>district_UnknownCity_Unknown_UnknownDate.csv\<close> is loaded with city
  \<open>UnknownCity\<close>, district \<open>Unknown\<close>, threshold 1.5 and no critical hours.
\<close>

theorem absent_metadata_fields_default_witness:
  "json_load bare_fs (''data/json'' @ ''/'' @ ''bare.json'') = Dict bare_meta
   \<and> attach_metadata ''UnknownCity'' ''Unknown'' 1.5 []
        [example_reading ''2025-09-10 00:00'' (Some 1.0)]
       \<in> set (fst (load_json_file bare_fs ''data/csv'' ''data/json'' ''bare.json'' ([], [])))"
proof -
  let ?dm = "\<lparr>district_meta.district_id = None, district_meta.threshold = None\<rparr>"
  let ?df = "[example_reading ''2025-09-10 00:00'' (Some 1.0)]"
  have parsed: "json_load bare_fs (''data/json'' @ ''/'' @ ''bare.json'') = Dict bare_meta"
    by (simp add: bare_fs_def)
  have declared: "?dm \<in> set (case city_meta.districts bare_meta of None \<Rightarrow> [] | Some ds \<Rightarrow> ds)"
    by (simp add: bare_meta_def)
  have csv: "read_csv bare_fs
               (csv_path ''data/csv''
                  (case city_meta.city bare_meta of None \<Rightarrow> ''UnknownCity'' | Some c \<Rightarrow> c)
                  (case district_meta.district_id ?dm of None \<Rightarrow> ''Unknown'' | Some d \<Rightarrow> d)
                  (case city_meta.date bare_meta of None \<Rightarrow> ''UnknownDate'' | Some d \<Rightarrow> d))
             = Some (DataFrame ?df)"
    by (simp add: bare_fs_def bare_meta_def csv_path_def)
  from absent_metadata_fields_default[of bare_fs "''data/json''" "''bare.json''" "''data/csv''" "([], [])"]
    parsed
  have "\<forall>dm \<in> set (case city_meta.districts bare_meta of None \<Rightarrow> [] | Some ds \<Rightarrow> ds). \<forall>df.
          read_csv bare_fs
            (csv_path ''data/csv''
               (case city_meta.city bare_meta of None \<Rightarrow> ''UnknownCity'' | Some c \<Rightarrow> c)
               (case district_meta.district_id dm of None \<Rightarrow> ''Unknown'' | Some d \<Rightarrow> d)
               (case city_meta.date bare_meta of None \<Rightarrow> ''UnknownDate'' | Some d \<Rightarrow> d))
          = Some (DataFrame df)
          \<longrightarrow> attach_metadata
                (case city_meta.city bare_meta of None \<Rightarrow> ''UnknownCity'' | Some c \<Rightarrow> c)
                (case district_meta.district_id dm of None \<Rightarrow> ''Unknown'' | Some d \<Rightarrow> d)
                (case district_meta.threshold dm of None \<Rightarrow> 1.5 | Some t \<Rightarrow> t)
                (case city_meta.critical_hours bare_meta of None \<Rightarrow> [] | Some h \<Rightarrow> h)
                (impute df)
              \<in> set (fst (load_json_file bare_fs ''data/csv'' ''data/json'' ''bare.json'' ([], [])))"
    unfolding Let_def by blast
  with declared csv
  have "attach_metadata
          (case city_meta.city bare_meta of None \<Rightarrow> ''UnknownCity'' | Some c \<Rightarrow> c)
          (case district_meta.district_id ?dm of None \<Rightarrow> ''Unknown'' | Some d \<Rightarrow> d)
          (case district_meta.threshold ?dm of None \<Rightarrow> 1.5 | Some t \<Rightarrow> t)
          (case city_meta.critical_hours bare_meta of None \<Rightarrow> [] | Some h \<Rightarrow> h)
          (impute ?df)
        \<in> set (fst (load_json_file bare_fs ''data/csv'' ''data/json'' ''bare.json'' ([], [])))"
    by blast
  moreover have "impute ?df = ?df"
    by (simp add: impute_def isna_sum_def example_reading_def)
  ultimately
  have "attach_metadata ''UnknownCity'' ''Unknown'' 1.5 [] ?df
        \<in> set (fst (load_json_file bare_fs ''data/csv'' ''data/json'' ''bare.json'' ([], [])))"
    by (simp add: bare_meta_def)
  with parsed show ?thesis by (intro conjI)
qed

subsection \<open>Missing values after loading\<close>






subsection \<open>The columns the charts read\<close>

lemma loaded_rows_lack_columns:
  assumes "fst (load_and_merge_data fs data_dir) = Inr table" and "r \<in> set table"
  shows "hour r = None \<and> violation r = None"
proof -
  let ?st = "load_json_files fs (data_dir @ ''/csv'') (data_dir @ ''/json'')
               (listdir fs (data_dir @ ''/json'')) ([], [])"
  from assms(1) have "table = concat (fst ?st)"
    by (simp add: load_and_merge_data_unfold Let_def split: if_splits)
  with assms(2) obtain t where t: "t \<in> set (fst ?st)" "r \<in> set t" by auto
  from t(1)[unfolded merged_table_iff] obtain c d th ch df
    where "t = attach_metadata c d th ch df" by blast
  with t(2) show ?thesis by (auto simp: attach_metadata_def)
qed

lemma column_None: "r \<in> set g \<Longrightarrow> f r = None \<Longrightarrow> column f g = None"
  by (induction g) (auto split: option.splits)

lemma column_total: "\<forall>r \<in> set g. f r \<noteq> None \<Longrightarrow> \<exists>vs. column f g = Some vs"
  by (induction g) (auto split: option.splits)

lemma sort_remdups_empty: "sort (remdups xs) = [] \<longleftrightarrow> xs = []"
proof -
  have "set (sort (remdups xs)) = set xs" by simp
  then show ?thesis by (metis set_empty)
qed

lemma trend_chart_KeyError:
  assumes "g \<noteq> []" and "\<forall>r \<in> set g. hour r = None"
  shows "trend_chart k g = Inl (KeyError ''hour'')"
proof -
  from assms obtain r where "r \<in> set g" "hour r = None" by (cases g) auto
  then have "column hour g = None" by (rule column_None)
  then show ?thesis by (simp add: trend_chart_def hourly_sum_def split: prod.splits)
qed

lemma trend_chart_Inr:
  assumes "g \<noteq> []" and "\<forall>r \<in> set g. hour r \<noteq> None"
  shows "\<exists>c. trend_chart k g = Inr c"
proof -
  from column_total[OF assms(2)] obtain hours where hours: "column hour g = Some hours" by blast
  then have "length hours = length g" by (metis column_Some length_map)
  with assms(1) have "sort (remdups hours) \<noteq> []" by (auto simp: sort_remdups_empty)
  then obtain p where "idxmax (map (\<lambda>h. (h, hour_total g h)) (sort (remdups hours))) = Some p"
    by (cases "sort (remdups hours)") (auto simp: idxmax_def)
  with hours show ?thesis
    by (simp add: trend_chart_def hourly_sum_def split: prod.splits)
qed

lemma trend_charts_Inr:
  "\<forall>kg \<in> set gs. \<exists>c. trend_chart (fst kg) (snd kg) = Inr c
     \<Longrightarrow> \<exists>charts. trend_charts gs acc = Inr charts"
proof (induction gs arbitrary: acc)
  case Nil
  show ?case by simp
next
  case (Cons kg gs)
  obtain k g where kg: "kg = (k, g)" by (cases kg)
  from Cons.prems kg obtain c where c: "trend_chart k g = Inr c" by auto
  from Cons.prems have "\<forall>kg \<in> set gs. \<exists>c. trend_chart (fst kg) (snd kg) = Inr c" by simp
  from Cons.IH[OF this, of "acc @ [c]"] c kg show ?case by simp
qed

lemma groupby_first:
  assumes "df \<noteq> []"
  shows "\<exists>k g rest. groupby key df = (k, g) # rest \<and> g \<noteq> [] \<and> set g \<subseteq> set df"
proof -
  from assms have "sort (remdups (map key df)) \<noteq> []" by (simp add: sort_remdups_empty)
  then have "groupby key df \<noteq> []" by (simp add: groupby_def)
  then obtain k g rest where eq: "groupby key df = (k, g) # rest"
    by (cases "groupby key df") auto
  then have "(k, g) \<in> set (groupby key df)" by simp
  from groupby_nonempty[OF this] groupby_subset[OF this] eq show ?thesis by blast
qed

lemma visualize_without_hour:
  assumes "df \<noteq> []" and "\<forall>r \<in> set df. hour r = None"
  shows "visualize_results results_df df = Inl (KeyError ''hour'')"
proof -
  from groupby_first[OF assms(1)] obtain k g rest
    where eq: "groupby group_key df = (k, g) # rest" and g: "g \<noteq> []" "set g \<subseteq> set df"
    by blast
  from g assms(2) have "trend_chart k g = Inl (KeyError ''hour'')"
    by (intro trend_chart_KeyError) auto
  then show ?thesis by (simp add: visualize_results_def eq)
qed

lemma visualize_with_hour:
  assumes "\<forall>r \<in> set df. hour r \<noteq> None"
  shows "\<exists>charts. visualize_results results_df df = Inr charts"
proof -
  have "\<forall>kg \<in> set (groupby group_key df). \<exists>c. trend_chart (fst kg) (snd kg) = Inr c"
  proof
    fix kg assume "kg \<in> set (groupby group_key df)"
    then have in_groups: "(fst kg, snd kg) \<in> set (groupby group_key df)" by simp
    from groupby_nonempty[OF in_groups] groupby_subset[OF in_groups] assms
    show "\<exists>c. trend_chart (fst kg) (snd kg) = Inr c"
      by (intro trend_chart_Inr) auto
  qed
  from trend_charts_Inr[OF this, of "[]"] obtain charts
    where "trend_charts (groupby group_key df) [] = Inr charts" by blast
  then show ?thesis by (simp add: visualize_results_def)
qed

lemma analysed_rows_have_columns:
  assumes "add_hour_violation df = Inr df'" and "r \<in> set df'"
  shows "hour r \<noteq> None \<and> violation r \<noteq> None"
  using assms by (auto simp: add_hour_violation_def list_all_iff split: if_splits)

lemma analysed_rows_frame:
  assumes "add_hour_violation df = Inr df'" and "\<forall>r \<in> set df. hour r = None \<and> violation r = None"
  shows "map (\<lambda>r. r\<lparr>hour := None, violation := None\<rparr>) df' = df"
proof -
  have "map (\<lambda>r. r\<lparr>hour := None, violation := None\<rparr>) df' = map (\<lambda>r. r) df"
    unfolding add_hour_violation_Inr(1)[OF assms(1)] map_map
    by (rule map_cong) (use assms(2) in auto)
  then show ?thesis by simp
qed

text \<open>
  Claim C10. The table the loader returns has neither an \<open>hour\<close> nor a
  \<open>violation\<close> column, and drawing the charts from it fails with
  \<open>KeyError: 'hour'\<close> as soon as it has a row. \<open>analyze_data\<close> changes the table it
  is given: the table it leaves behind differs from its input exactly in the two columns
  \<open>hour\<close> and \<open>violation\<close>, which every row now has, and the charts can be drawn
  from it. The driver draws the charts from that updated table.
\<close>

theorem analysis_adds_the_columns_the_charts_read:
  assumes "fst (load_and_merge_data fs data_dir) = Inr df"
  shows "(\<forall>r \<in> set df. hour r = None \<and> violation r = None)
       \<and> (df \<noteq> [] \<longrightarrow> visualize_results results_df df = Inl (KeyError ''hour''))
       \<and> (\<forall>df' results. analyze_data df = Inr (df', results) \<longrightarrow>
              map (\<lambda>r. r\<lparr>hour := None, violation := None\<rparr>) df' = df
            \<and> (\<forall>r \<in> set df'. hour r \<noteq> None \<and> violation r \<noteq> None)
            \<and> (\<exists>charts. visualize_results results df' = Inr charts
                  \<and> (data_dir = ''data'' \<longrightarrow> main_driver fs = Inr (results, charts))))"
proof -
  have bare: "\<forall>r \<in> set df. hour r = None \<and> violation r = None"
    using loaded_rows_lack_columns[OF assms] by blast
  have fails: "df \<noteq> [] \<longrightarrow> visualize_results results_df df = Inl (KeyError ''hour'')"
    using bare by (auto intro: visualize_without_hour)
  have after: "\<forall>df' results. analyze_data df = Inr (df', results) \<longrightarrow>
              map (\<lambda>r. r\<lparr>hour := None, violation := None\<rparr>) df' = df
            \<and> (\<forall>r \<in> set df'. hour r \<noteq> None \<and> violation r \<noteq> None)
            \<and> (\<exists>charts. visualize_results results df' = Inr charts
                  \<and> (data_dir = ''data'' \<longrightarrow> main_driver fs = Inr (results, charts)))"
  proof (intro allI impI)
    fix df' results
    assume run: "analyze_data df = Inr (df', results)"
    note cols = analyze_data_Inr(1)[OF run]
    have frame: "map (\<lambda>r. r\<lparr>hour := None, violation := None\<rparr>) df' = df"
      using analysed_rows_frame[OF cols bare] .
    have added: "\<forall>r \<in> set df'. hour r \<noteq> None \<and> violation r \<noteq> None"
      using analysed_rows_have_columns[OF cols] by blast
    then have "\<forall>r \<in> set df'. hour r \<noteq> None" by blast
    from visualize_with_hour[OF this, of results] obtain charts
      where charts: "visualize_results results df' = Inr charts" by blast
    have driver: "data_dir = ''data'' \<longrightarrow> main_driver fs = Inr (results, charts)"
    proof
      assume d: "data_dir = ''data''"
      from assms have "fst (load_and_merge_data fs ''data'') = Inr df" unfolding d .
      with run charts show "main_driver fs = Inr (results, charts)"
        by (simp add: main_driver_def)
    qed
    from frame added charts driver
    show "map (\<lambda>r. r\<lparr>hour := None, violation := None\<rparr>) df' = df
            \<and> (\<forall>r \<in> set df'. hour r \<noteq> None \<and> violation r \<noteq> None)
            \<and> (\<exists>charts. visualize_results results df' = Inr charts
                  \<and> (data_dir = ''data'' \<longrightarrow> main_driver fs = Inr (results, charts)))"
      by blast
  qed
  from bare fails after show ?thesis by blast
qed

text \<open>
  The theorem on \<open>example_fs\<close>: the loaded table has rows, the charts cannot be drawn
  from it, the analysis succeeds, and the driver draws the charts from the table the
  analysis has updated.
\<close>

theorem analysis_adds_the_columns_the_charts_read_witness:
  "\<exists>df df' results charts.
       fst (load_and_merge_data example_fs ''data'') = Inr df \<and> df \<noteq> []
     \<and> visualize_results [] df = Inl (KeyError ''hour'')
     \<and> analyze_data df = Inr (df', results)
     \<and> df' \<noteq> df
     \<and> visualize_results results df' = Inr charts
     \<and> main_driver example_fs = Inr (results, charts)"
proof -
  have "case fst (load_and_merge_data example_fs ''data'') of
          Inr df \<Rightarrow> df \<noteq> [] \<and> (case analyze_data df of Inr (df', results) \<Rightarrow> df' \<noteq> df | _ \<Rightarrow> False)
        | _ \<Rightarrow> False"
    by code_simp
  then obtain df df' results
    where load: "fst (load_and_merge_data example_fs ''data'') = Inr df"
      and rows: "df \<noteq> []"
      and run: "analyze_data df = Inr (df', results)"
      and changed: "df' \<noteq> df"
    by (auto split: sum.splits prod.splits)
  note th = analysis_adds_the_columns_the_charts_read[OF load, of "[]"]
  from th rows have fails: "visualize_results [] df = Inl (KeyError ''hour'')" by blast
  from th run obtain charts where charts: "visualize_results results df' = Inr charts"
    and driver: "main_driver example_fs = Inr (results, charts)"
    by blast
  from load rows fails run changed charts driver show ?thesis by blast
qed

end
